theory Spec2Isabelle
  imports Main
begin

section \<open>The uberenv-sw4 package: host-config and make.inc generation\<close>

text \<open>
  The repository is one Spack package file, \<^verbatim>\<open>packages/uberenv-sw4/package.py\<close>.
  Its two generators, \<^verbatim>\<open>create_host_config\<close> and \<^verbatim>\<open>makefile_inc\<close>, open a file, pass a
  fixed sequence of strings to \<^verbatim>\<open>cfg.write\<close>, close the file and return its absolute path.

  The model keeps the file as the list of the strings written, in program order; the bytes
  of the file are the concatenation of that list. What the code reads from Spack and from
  the operating system (\<^verbatim>\<open>env[...]\<close>, \<^verbatim>\<open>spec[...]\<close>, \<^verbatim>\<open>"+x" in spec\<close>, \<^verbatim>\<open>which\<close>,
  \<^verbatim>\<open>os.path.isfile\<close>, \<^verbatim>\<open>socket.gethostname\<close>, \<^verbatim>\<open>os.path.abspath\<close>) is not code of the
  package: the results of those reads are the fields of the two records below.

  Two lookups depend on the package's own declarations. Line 79 makes \<^verbatim>\<open>mpi\<close> a dependency
  only \<^verbatim>\<open>when="+mpi"\<close> and line 71 makes \<^verbatim>\<open>raja\<close> one only \<^verbatim>\<open>when="+cuda"\<close>; no other
  dependency of lines 66 to 71 brings them in. So \<^verbatim>\<open>spec['mpi']\<close> raises \<^verbatim>\<open>KeyError\<close> when
  \<^verbatim>\<open>+mpi\<close> is off and \<^verbatim>\<open>spec['raja']\<close> raises it when \<^verbatim>\<open>+cuda\<close> is off: the fields
  \<open>mpicc\<close>, \<open>mpicxx\<close>, \<open>mpifc\<close>, \<open>mpi_prefix_bin\<close> and \<open>raja_prefix\<close> are read only
  where the lookup succeeds.
\<close>

subsection \<open>Characters that need an escape in Python\<close>

abbreviation dq :: string where
  "dq \<equiv> [CHR 0x22]"

abbreviation nl :: string where
  "nl \<equiv> [CHR 0x0A]"

subsection \<open>Python values that reach \<^verbatim>\<open>str.format\<close>\<close>

text \<open>
  \<^verbatim>\<open>f_compiler\<close> is either \<^verbatim>\<open>None\<close> or the object returned by \<^verbatim>\<open>which\<close>, whose
  rendering is its path. \<^verbatim>\<open>'{0}'.format(None)\<close> is the text \<^verbatim>\<open>None\<close>.
\<close>

datatype pyval = PyNone | PyStr string

fun py_format :: "pyval \<Rightarrow> string" where
  "py_format PyNone = ''None''"
| "py_format (PyStr s) = s"

subsection \<open>The module-level helpers (lines 18 to 37)\<close>

definition cmake_cache_entry :: "string \<Rightarrow> string \<Rightarrow> string option \<Rightarrow> string" where
  "cmake_cache_entry name val vtype =
     (let vt = (case vtype of
                  None \<Rightarrow> if val = ''ON'' \<or> val = ''OFF'' then ''BOOL'' else ''PATH''
                | Some t \<Rightarrow> t)
      in ''set('' @ name @ '' '' @ dq @ val @ dq @ '' CACHE '' @ vt @ dq @ dq @ '')'' @ nl @ nl)"

definition make_entry :: "string \<Rightarrow> pyval \<Rightarrow> string" where
  "make_entry name val = name @ '' = '' @ py_format val @ '' '' @ nl"

definition make_lib_entry :: "string \<Rightarrow> string" where
  "make_lib_entry val = '' -L '' @ val @ ''/lib/''"

definition make_inc_entry :: "string \<Rightarrow> string" where
  "make_inc_entry val = '' -I'' @ val @ ''/include/''"

subsection \<open>What the generators read\<close>

text \<open>
  \<open>which_exe n\<close> is the path of the executable that \<^verbatim>\<open>which(n)\<close> finds, \<open>None\<close> when it
  finds nothing. \<open>compiler_fc\<close> is \<^verbatim>\<open>self.compiler.fc\<close>, tested for truth by the code.
\<close>

record environment =
  SPACK_CC :: string
  SPACK_CXX :: string
  SPACK_FC :: string
  SYS_TYPE :: "string option"
  compiler_fc :: "string option"
  gethostname :: string
  which_exe :: "string \<Rightarrow> string option"
  isfile :: "string \<Rightarrow> bool"
  abspath :: "string \<Rightarrow> string"

text \<open>
  The fields \<open>variant_x\<close> are the tests \<^verbatim>\<open>"+x" in spec\<close>; the prefixes are
  \<^verbatim>\<open>spec['netlib-lapack'].prefix\<close>, \<^verbatim>\<open>spec['blas'].prefix\<close>, \<^verbatim>\<open>spec['umpire'].prefix\<close>,
  \<^verbatim>\<open>spec['raja'].prefix\<close> and \<^verbatim>\<open>spec['proj'].prefix\<close>; \<open>cmake_satisfies_3_10\<close> is
  \<^verbatim>\<open>self.spec["cmake"].satisfies('@3.10:')\<close>.
\<close>

record spec =
  architecture :: string
  compiler :: string
  variant_cmake :: bool
  variant_shared :: bool
  variant_test :: bool
  variant_mpi :: bool
  variant_cuda :: bool
  variant_openmp :: bool
  cmake_command_path :: string
  cmake_satisfies_3_10 :: bool
  lapack_prefix :: string
  blas_prefix :: string
  umpire_prefix :: string
  raja_prefix :: string
  proj_prefix :: string
  mpicc :: string
  mpicxx :: string
  mpifc :: string
  mpi_prefix_bin :: string

subsection \<open>What a generator leaves behind\<close>

record emitted =
  opened :: string
  written :: "string list"
  logged :: string
  returned :: string

datatype error = RuntimeError string | KeyError string

text \<open>
  A run stopped by an exception after \<^verbatim>\<open>open\<close>: the file stays behind with what was
  written up to the statement that raised.
\<close>

record aborted =
  raised :: error
  left_opened :: string
  left_written :: "string list"

text \<open>The file of a run, finished or not: its name and the strings written to it.\<close>

definition file_name :: "aborted + emitted \<Rightarrow> string" where
  "file_name res = (case res of Inl a \<Rightarrow> left_opened a | Inr r \<Rightarrow> opened r)"

definition file_writes :: "aborted + emitted \<Rightarrow> string list" where
  "file_writes res = (case res of Inl a \<Rightarrow> left_written a | Inr r \<Rightarrow> written r)"

subsection \<open>Shared steps of both generators\<close>

text \<open>\<^verbatim>\<open>join_path\<close> is \<^verbatim>\<open>os.path.join\<close>, here with two components.\<close>

definition join_path :: "string \<Rightarrow> string \<Rightarrow> string" where
  "join_path a b =
     (if take 1 b = ''/'' then b
      else if a = [] \<or> last a = CHR ''/'' then a @ b
      else a @ ''/'' @ b)"

text \<open>Lines 179 to 182 and 329 to 332: the platform identifier.\<close>

definition sys_type :: "environment \<Rightarrow> spec \<Rightarrow> string" where
  "sys_type env sp = (case SYS_TYPE env of Some s \<Rightarrow> s | None \<Rightarrow> architecture sp)"

text \<open>Python's truth test of \<^verbatim>\<open>self.compiler.fc\<close>, then lines 169 to 171 and 319 to 321.\<close>

definition f_compiler :: "environment \<Rightarrow> pyval" where
  "f_compiler env =
     (if (case compiler_fc env of None \<Rightarrow> False | Some s \<Rightarrow> s \<noteq> [])
      then (case which_exe env (SPACK_FC env) of None \<Rightarrow> PyNone | Some p \<Rightarrow> PyStr p)
      else PyNone)"

subsection \<open>The CMake generator (lines 143 to 304, repeated word for word at 425 to 586)\<close>

text \<open>Lines 188 to 195.\<close>

definition find_cmake :: "environment \<Rightarrow> spec \<Rightarrow> error + string" where
  "find_cmake env sp =
     (if variant_cmake sp then Inr (cmake_command_path sp)
      else (case which_exe env ''cmake'' of
              None \<Rightarrow> Inl (RuntimeError ''failed to find CMake (and cmake variant is off)'')
            | Some p \<Rightarrow> Inr p))"

text \<open>Lines 261 to 279: the MPI block.\<close>

definition mpi_writes :: "environment \<Rightarrow> spec \<Rightarrow> string list" where
  "mpi_writes env sp =
     (if variant_mpi sp then
        [cmake_cache_entry ''ENABLE_MPI'' ''ON'' None,
         cmake_cache_entry ''MPI_C_COMPILER'' (mpicc sp) None,
         cmake_cache_entry ''MPI_CXX_COMPILER'' (mpicxx sp) None,
         cmake_cache_entry ''MPI_Fortran_COMPILER'' (mpifc sp) None] @
        (let mpiexe_bin = join_path (mpi_prefix_bin sp) ''mpiexec'' in
           if isfile env mpiexe_bin then
             (if cmake_satisfies_3_10 sp
              then [cmake_cache_entry ''MPIEXEC_EXECUTABLE'' mpiexe_bin None]
              else [cmake_cache_entry ''MPIEXEC'' mpiexe_bin None])
           else [])
      else [cmake_cache_entry ''ENABLE_MPI'' ''OFF'' None])"

text \<open>Lines 202 to 299: every \<^verbatim>\<open>cfg.write\<close> of the generator, in order.\<close>

definition host_config_writes :: "environment \<Rightarrow> spec \<Rightarrow> string \<Rightarrow> string list" where
  "host_config_writes env sp cmake_exe =
     [''##################################'' @ nl,
      ''# spack generated host-config'' @ nl,
      ''##################################'' @ nl,
      ''# '' @ sys_type env sp @ ''-'' @ compiler sp @ nl,
      ''##################################'' @ nl @ nl,
      ''# cmake from spack '' @ nl,
      ''# cmake executable path: '' @ cmake_exe @ nl @ nl,
      ''#######'' @ nl,
      ''# using '' @ compiler sp @ '' compiler spec'' @ nl,
      ''#######'' @ nl @ nl,
      ''# c compiler used by spack'' @ nl,
      cmake_cache_entry ''CMAKE_C_COMPILER'' (SPACK_CC env) None,
      ''# cpp compiler used by spack'' @ nl,
      cmake_cache_entry ''CMAKE_CXX_COMPILER'' (SPACK_CXX env) None,
      (if variant_shared sp then cmake_cache_entry ''BUILD_SHARED_LIBS'' ''ON'' None
       else cmake_cache_entry ''BUILD_SHARED_LIBS'' ''OFF'' None),
      (if variant_test sp then cmake_cache_entry ''ENABLE_TESTS'' ''ON'' None
       else cmake_cache_entry ''ENABLE_TESTS'' ''OFF'' None),
      ''# conduit from spack '' @ nl,
      cmake_cache_entry ''LAPACK_DIR'' (lapack_prefix sp) None,
      cmake_cache_entry ''BLAS_DIR'' (blas_prefix sp) None,
      cmake_cache_entry ''UMPIRE_DIR'' (umpire_prefix sp) None,
      cmake_cache_entry ''UMPIRE_DIR'' (umpire_prefix sp) None,
      ''# MPI Support'' @ nl] @
     mpi_writes env sp @
     [''# CUDA Support'' @ nl,
      (if variant_cuda sp then cmake_cache_entry ''ENABLE_CUDA'' ''ON'' None
       else cmake_cache_entry ''ENABLE_CUDA'' ''OFF'' None),
      (if variant_openmp sp then cmake_cache_entry ''ENABLE_OPENMP'' ''ON'' None
       else cmake_cache_entry ''ENABLE_OPENMP'' ''OFF'' None),
      ''##################################'' @ nl,
      ''# end spack generated host-config'' @ nl,
      ''##################################'' @ nl]"

definition create_host_config :: "environment \<Rightarrow> spec \<Rightarrow> error + emitted" where
  "create_host_config env sp =
     (case find_cmake env sp of
        Inl e \<Rightarrow> Inl e
      | Inr cmake_exe \<Rightarrow>
          (let host_cfg_fname =
                 gethostname env @ ''-'' @ sys_type env sp @ ''-'' @ compiler sp @ ''-ascent.cmake''
           in Inr \<lparr>opened = host_cfg_fname,
                   written = host_config_writes env sp cmake_exe,
                   logged = ''spack generated conduit host-config file: ''
                              @ abspath env host_cfg_fname,
                   returned = abspath env host_cfg_fname\<rparr>))"

subsection \<open>The Makefile generator (lines 306 to 423)\<close>

text \<open>Lines 343 to 357: the writes before the first lookup of \<^verbatim>\<open>spec['mpi']\<close>.\<close>

definition makefile_inc_head :: "environment \<Rightarrow> spec \<Rightarrow> string list" where
  "makefile_inc_head env sp =
     [''##################################'' @ nl,
      ''# spack generated make.inc'' @ nl,
      ''##################################'' @ nl,
      ''# '' @ sys_type env sp @ ''-'' @ compiler sp @ nl,
      ''##################################'' @ nl @ nl,
      ''#######'' @ nl,
      ''# using '' @ compiler sp @ '' compiler spec'' @ nl,
      ''#######'' @ nl @ nl,
      ''# c compiler used by spack'' @ nl,
      make_entry ''CC'' (PyStr (SPACK_CC env)),
      ''# cpp compiler used by spack'' @ nl]"

text \<open>
  Lines 359 to 375, reached when \<^verbatim>\<open>spec['mpi']\<close> of line 359 is found: up to the last write
  before the lookup of \<^verbatim>\<open>spec['raja']\<close>.
\<close>

definition makefile_inc_compilers :: "environment \<Rightarrow> spec \<Rightarrow> string list" where
  "makefile_inc_compilers env sp =
     [make_entry ''CXX'' (PyStr (mpicxx sp)),
      ''# fortran compiler used by spack'' @ nl,
      make_entry ''FC'' (f_compiler env),
      make_entry ''CC'' (PyStr (mpicxx sp)),
      make_entry ''LINKER'' (PyStr ''nvcc''),
      ''EXTRA_CXX_FLAGS = '',
      make_inc_entry (lapack_prefix sp),
      make_inc_entry (blas_prefix sp),
      make_inc_entry (umpire_prefix sp)]"

text \<open>Lines 377 to 418, reached when \<^verbatim>\<open>spec['raja']\<close> of line 377 is found as well.\<close>

definition makefile_inc_flags :: "environment \<Rightarrow> spec \<Rightarrow> string list" where
  "makefile_inc_flags env sp =
     [make_inc_entry (raja_prefix sp),
      make_inc_entry (proj_prefix sp),
      '' -DSW4_USE_UMPIRE=1 -DSW4_RAJA_VERSION=7'',
      '' -std=c++11'',
      '' -ccbin '' @ mpicxx sp,
      '' -Xcompiler '' @ dq @ ''-fopenmp'' @ dq,
      nl,
      ''EXTRA_LINK_FLAGS = '',
      make_lib_entry (lapack_prefix sp),
      make_lib_entry (blas_prefix sp),
      make_lib_entry (umpire_prefix sp),
      make_lib_entry (raja_prefix sp),
      make_lib_entry (proj_prefix sp),
      nl,
      ''##################################'' @ nl,
      ''# end spack generated make.inc'' @ nl,
      ''##################################'' @ nl]"

text \<open>
  The generator. The arguments of a \<^verbatim>\<open>cfg.write\<close> are evaluated before the write, so a
  lookup that raises leaves the file with the writes of the statements before it.
\<close>

definition makefile_inc :: "environment \<Rightarrow> spec \<Rightarrow> aborted + emitted" where
  "makefile_inc env sp =
     (let host_cfg_fname =
            ''make-'' @ gethostname env @ ''-'' @ sys_type env sp @ ''-'' @ compiler sp
              @ ''-ascent.inc''
      in if \<not> variant_mpi sp then
           Inl \<lparr>raised = KeyError ''mpi'', left_opened = host_cfg_fname,
                left_written = makefile_inc_head env sp\<rparr>
         else if \<not> variant_cuda sp then
           Inl \<lparr>raised = KeyError ''raja'', left_opened = host_cfg_fname,
                left_written = makefile_inc_head env sp @ makefile_inc_compilers env sp\<rparr>
         else
           Inr \<lparr>opened = host_cfg_fname,
                written = makefile_inc_head env sp @ makefile_inc_compilers env sp
                            @ makefile_inc_flags env sp,
                logged = ''spack generated conduit make.inc file: ''
                           @ abspath env host_cfg_fname,
                returned = abspath env host_cfg_fname\<rparr>)"

subsection \<open>Reading a written file back\<close>

text \<open>
  The name of a cache entry is what stands between \<^verbatim>\<open>set(\<close> and the first space; its
  type is the last word before the closing \<^verbatim>\<open>"")\<close> and the two newlines.
\<close>

definition entry_name :: "string \<Rightarrow> string option" where
  "entry_name w =
     (if take 4 w = ''set('' then Some (takeWhile (\<lambda>c. c \<noteq> CHR '' '') (drop 4 w)) else None)"

definition entry_type :: "string \<Rightarrow> string" where
  "entry_type w = rev (takeWhile (\<lambda>c. c \<noteq> CHR '' '') (drop 5 (rev w)))"

definition cache_names :: "string list \<Rightarrow> string list" where
  "cache_names ws = List.map_filter entry_name ws"


subsection \<open>Concrete requests\<close>

definition env0 :: environment where
  "env0 = \<lparr>SPACK_CC = ''/usr/bin/gcc'', SPACK_CXX = ''/usr/bin/g++'',
           SPACK_FC = ''/usr/bin/gfortran'', SYS_TYPE = None, compiler_fc = None,
           gethostname = ''node1'',
           which_exe = (\<lambda>n. if n = ''cmake'' then Some ''/usr/bin/cmake'' else None),
           isfile = (\<lambda>p. p = ''/opt/mpi/bin/mpiexec''),
           abspath = (\<lambda>p. ''/build/'' @ p)\<rparr>"

definition spec0 :: spec where
  "spec0 = \<lparr>architecture = ''linux-x86_64'', compiler = ''gcc@8.3.1'',
            variant_cmake = False, variant_shared = True, variant_test = False,
            variant_mpi = True, variant_cuda = True, variant_openmp = False,
            cmake_command_path = '''', cmake_satisfies_3_10 = True,
            lapack_prefix = ''/opt/lapack'', blas_prefix = ''/opt/blas'',
            umpire_prefix = ''/opt/umpire'', raja_prefix = ''/opt/raja'',
            proj_prefix = ''/opt/proj'',
            mpicc = ''/opt/mpi/bin/mpicc'', mpicxx = ''/opt/mpi/bin/mpicxx'',
            mpifc = ''/opt/mpi/bin/mpif90'', mpi_prefix_bin = ''/opt/mpi/bin''\<rparr>"

definition spec_no_mpi :: spec where
  "spec_no_mpi = spec0\<lparr>variant_mpi := False\<rparr>"

definition env_no_cmake :: environment where
  "env_no_cmake = env0\<lparr>which_exe := (\<lambda>n. None)\<rparr>"

definition env_other_cmake :: environment where
  "env_other_cmake = env0\<lparr>which_exe := (\<lambda>n. Some ''/opt/cmake/bin/cmake'')\<rparr>"

subsection \<open>Classes of written strings\<close>

text \<open>The names that the MPI block, lines 261 to 279, can pass to \<^verbatim>\<open>cmake_cache_entry\<close>.\<close>

definition mpi_entry_names :: "string list" where
  "mpi_entry_names =
     [''ENABLE_MPI'', ''MPI_C_COMPILER'', ''MPI_CXX_COMPILER'', ''MPI_Fortran_COMPILER'',
      ''MPIEXEC'', ''MPIEXEC_EXECUTABLE'']"

definition is_mpi_entry :: "string \<Rightarrow> bool" where
  "is_mpi_entry w =
     (case entry_name w of None \<Rightarrow> False | Some n \<Rightarrow> n \<in> set mpi_entry_names)"

definition is_mpiexec_entry :: "string \<Rightarrow> bool" where
  "is_mpiexec_entry w =
     (case entry_name w of
        None \<Rightarrow> False
      | Some n \<Rightarrow> n = ''MPIEXEC'' \<or> n = ''MPIEXEC_EXECUTABLE'')"

text \<open>A Makefile assignment to \<open>name\<close> starts with the name and \<^verbatim>\<open> = \<close>.\<close>

definition assigns :: "string \<Rightarrow> string \<Rightarrow> bool" where
  "assigns name w = (take (length name + 3) w = name @ '' = '')"


text \<open>Every write but the comment of line 210, which holds the path of the cmake found.\<close>

definition outside_cmake_comment :: "string \<Rightarrow> bool" where
  "outside_cmake_comment w = (take 25 w \<noteq> ''# cmake executable path: '')"

section \<open>Reading entries back\<close>

lemma takeWhile_until:
  "c \<notin> set xs \<Longrightarrow> takeWhile (\<lambda>x. x \<noteq> c) (xs @ c # ys) = xs"
  by (induction xs) auto

lemma entry_name_cache_entry:
  "CHR '' '' \<notin> set name \<Longrightarrow> entry_name (cmake_cache_entry name val vtype) = Some name"
  by (simp add: entry_name_def cmake_cache_entry_def Let_def takeWhile_until)

lemma entry_name_comment: "entry_name (CHR ''#'' # s) = None"
  by (simp add: entry_name_def)

lemma entry_type_cache_entry:
  "CHR '' '' \<notin> set t \<Longrightarrow> entry_type (cmake_cache_entry name val (Some t)) = t"
  by (simp add: entry_type_def cmake_cache_entry_def Let_def takeWhile_until)

lemma cache_names_append: "cache_names (xs @ ys) = cache_names xs @ cache_names ys"
  by (simp add: cache_names_def List.map_filter_def)

lemma written_host_config:
  assumes "create_host_config env sp = Inr r"
  obtains exe where "find_cmake env sp = Inr exe"
    and "written r = host_config_writes env sp exe"
  using assms by (auto simp: create_host_config_def Let_def split: sum.splits)

lemma create_host_config_runs:
  assumes "find_cmake env sp = Inr exe"
  obtains r where "create_host_config env sp = Inr r"
    and "written r = host_config_writes env sp exe"
    and "opened r =
           gethostname env @ ''-'' @ sys_type env sp @ ''-'' @ compiler sp @ ''-ascent.cmake''"
  using assms by (simp add: create_host_config_def Let_def)

lemma cache_names_mpi_writes:
  "cache_names (mpi_writes env sp) =
     (if variant_mpi sp then
        [''ENABLE_MPI'', ''MPI_C_COMPILER'', ''MPI_CXX_COMPILER'', ''MPI_Fortran_COMPILER''] @
        (if isfile env (join_path (mpi_prefix_bin sp) ''mpiexec'')
         then [if cmake_satisfies_3_10 sp then ''MPIEXEC_EXECUTABLE'' else ''MPIEXEC'']
         else [])
      else [''ENABLE_MPI''])"
  by (simp add: mpi_writes_def cache_names_def List.map_filter_simps entry_name_cache_entry
      Let_def)

lemma cache_names_host_config_writes:
  "cache_names (host_config_writes env sp exe) =
     [''CMAKE_C_COMPILER'', ''CMAKE_CXX_COMPILER'', ''BUILD_SHARED_LIBS'', ''ENABLE_TESTS'',
      ''LAPACK_DIR'', ''BLAS_DIR'', ''UMPIRE_DIR'', ''UMPIRE_DIR''] @
     cache_names (mpi_writes env sp) @ [''ENABLE_CUDA'', ''ENABLE_OPENMP'']"
  unfolding host_config_writes_def cache_names_append
  by (simp add: cache_names_def List.map_filter_simps entry_name_cache_entry
      entry_name_comment)

subsection \<open>The concrete requests, field by field\<close>

lemma find_cmake0: "find_cmake env0 spec0 = Inr ''/usr/bin/cmake''"
  by (simp add: find_cmake_def env0_def spec0_def)

lemma find_cmake_no_mpi: "find_cmake env0 spec_no_mpi = Inr ''/usr/bin/cmake''"
  by (simp add: find_cmake_def env0_def spec0_def spec_no_mpi_def)

lemma names0:
  "gethostname env0 = ''node1''" "sys_type env0 spec0 = ''linux-x86_64''"
  "compiler spec0 = ''gcc@8.3.1''"
  by (simp_all add: env0_def spec0_def sys_type_def)

lemma cuda0: "variant_cuda spec0"
  by (simp add: spec0_def)

lemma mpi0:
  "variant_mpi spec0" "cmake_satisfies_3_10 spec0"
  "join_path (mpi_prefix_bin spec0) ''mpiexec'' = ''/opt/mpi/bin/mpiexec''"
  "isfile env0 ''/opt/mpi/bin/mpiexec''"
  by (simp_all add: env0_def spec0_def join_path_def)

section \<open>The type of a cache entry\<close>

text \<open>
  Claim C1. A cache entry made without an explicit type carries the type \<^verbatim>\<open>BOOL\<close> exactly
  when its value is the string \<^verbatim>\<open>ON\<close> or the string \<^verbatim>\<open>OFF\<close>, and the type \<^verbatim>\<open>PATH\<close> for
  every other value: the entry is the one made with that type given explicitly, and the
  type read back from the written string is that type.
\<close>

theorem cache_type_inferred:
  "cmake_cache_entry name val None =
     cmake_cache_entry name val
       (Some (if val = ''ON'' \<or> val = ''OFF'' then ''BOOL'' else ''PATH''))
   \<and> (entry_type (cmake_cache_entry name val None) = ''BOOL'')
       = (val = ''ON'' \<or> val = ''OFF'')
   \<and> (entry_type (cmake_cache_entry name val None) = ''PATH'')
       = (\<not> (val = ''ON'' \<or> val = ''OFF''))"
  by (simp add: entry_type_def cmake_cache_entry_def Let_def)

theorem cache_type_inferred_witness:
  "entry_type (cmake_cache_entry ''ENABLE_CUDA'' ''OFF'' None) = ''BOOL''
   \<and> entry_type (cmake_cache_entry ''BLAS_DIR'' ''/opt/blas'' None) = ''PATH''"
  using cache_type_inferred [of "''ENABLE_CUDA''" "''OFF''"]
    cache_type_inferred [of "''BLAS_DIR''" "''/opt/blas''"]
  by (simp add: entry_type_cache_entry)

section \<open>The text of a cache entry\<close>

text \<open>
  Claim C2. The specification describes every cache entry as
  \<^verbatim>\<open>set(<NAME> "<VALUE>" CACHE <TYPE> "")\<close> and a blank line, with a space between the type
  and the empty docstring, as CMake's \<^verbatim>\<open>set\<close> needs it. The format string of line 28 has
  no such space: for the name \<^verbatim>\<open>BUILD_SHARED_LIBS\<close> and the value \<^verbatim>\<open>ON\<close> the code returns
  \<^verbatim>\<open>set(BUILD_SHARED_LIBS "ON" CACHE BOOL"")\<close> and two newlines, which is not the text
  with the space.
\<close>

theorem cache_entry_text_at_shared_on:
  "cmake_cache_entry ''BUILD_SHARED_LIBS'' ''ON'' None
     = ''set(BUILD_SHARED_LIBS '' @ dq @ ''ON'' @ dq @ '' CACHE BOOL'' @ dq @ dq @ '')'' @ nl @ nl
   \<and> cmake_cache_entry ''BUILD_SHARED_LIBS'' ''ON'' None
     \<noteq> ''set(BUILD_SHARED_LIBS '' @ dq @ ''ON'' @ dq @ '' CACHE BOOL '' @ dq @ dq @ '')'' @ nl @ nl"
  by (simp add: cmake_cache_entry_def)

section \<open>The MPI block of the host-config\<close>

lemma is_mpi_entry_cache_entry:
  "CHR '' '' \<notin> set name \<Longrightarrow>
   is_mpi_entry (cmake_cache_entry name val vtype) = (name \<in> set mpi_entry_names)"
  by (simp add: is_mpi_entry_def entry_name_cache_entry)

lemma is_mpi_entry_comment: "\<not> is_mpi_entry (CHR ''#'' # s)"
  by (simp add: is_mpi_entry_def entry_name_comment)

lemma filter_mpi_host_config_writes:
  "filter is_mpi_entry (host_config_writes env sp exe) = mpi_writes env sp"
  by (simp add: host_config_writes_def mpi_writes_def is_mpi_entry_cache_entry
      is_mpi_entry_comment mpi_entry_names_def Let_def)

text \<open>
  Claim C3. When \<^verbatim>\<open>+mpi\<close> is not in the spec, the writes of a finished host-config that are
  cache entries with an MPI name (\<^verbatim>\<open>ENABLE_MPI\<close>, the three \<^verbatim>\<open>MPI_*_COMPILER\<close>, \<^verbatim>\<open>MPIEXEC\<close>,
  \<^verbatim>\<open>MPIEXEC_EXECUTABLE\<close>) are exactly one: \<^verbatim>\<open>ENABLE_MPI\<close> with the value \<^verbatim>\<open>OFF\<close>.
\<close>

theorem mpi_off_single_entry:
  assumes "\<not> variant_mpi sp" and "create_host_config env sp = Inr r"
  shows "filter is_mpi_entry (written r) = [cmake_cache_entry ''ENABLE_MPI'' ''OFF'' None]"
proof -
  from assms(2) obtain exe where "written r = host_config_writes env sp exe"
    by (rule written_host_config)
  then show ?thesis
    using assms(1) by (simp add: filter_mpi_host_config_writes mpi_writes_def)
qed

theorem mpi_off_single_entry_witness:
  "\<not> variant_mpi spec_no_mpi
   \<and> filter is_mpi_entry (host_config_writes env0 spec_no_mpi ''/usr/bin/cmake'')
       = [cmake_cache_entry ''ENABLE_MPI'' ''OFF'' None]"
proof -
  have off: "\<not> variant_mpi spec_no_mpi"
    by (simp add: spec_no_mpi_def)
  obtain r where run: "create_host_config env0 spec_no_mpi = Inr r"
    and w: "written r = host_config_writes env0 spec_no_mpi ''/usr/bin/cmake''"
    using find_cmake_no_mpi by (rule create_host_config_runs)
  show ?thesis
    using off mpi_off_single_entry [OF off run] by (simp add: w)
qed

lemma is_mpiexec_entry_cache_entry:
  "CHR '' '' \<notin> set name \<Longrightarrow>
   is_mpiexec_entry (cmake_cache_entry name val vtype)
     = (name = ''MPIEXEC'' \<or> name = ''MPIEXEC_EXECUTABLE'')"
  by (simp add: is_mpiexec_entry_def entry_name_cache_entry)

lemma is_mpiexec_entry_comment: "\<not> is_mpiexec_entry (CHR ''#'' # s)"
  by (simp add: is_mpiexec_entry_def entry_name_comment)

lemma filter_mpiexec_host_config_writes:
  "filter is_mpiexec_entry (host_config_writes env sp exe) =
     (if variant_mpi sp \<and> isfile env (join_path (mpi_prefix_bin sp) ''mpiexec'')
      then [cmake_cache_entry
              (if cmake_satisfies_3_10 sp then ''MPIEXEC_EXECUTABLE'' else ''MPIEXEC'')
              (join_path (mpi_prefix_bin sp) ''mpiexec'') None]
      else [])"
  by (simp add: host_config_writes_def mpi_writes_def is_mpiexec_entry_cache_entry
      is_mpiexec_entry_comment Let_def)

text \<open>
  For a prefix that is not empty and does not end in a slash, the path probed is the
  prefix, a slash and \<^verbatim>\<open>mpiexec\<close>.
\<close>

lemma join_path_mpiexec:
  "a \<noteq> [] \<Longrightarrow> last a \<noteq> CHR ''/'' \<Longrightarrow> join_path a ''mpiexec'' = a @ ''/mpiexec''"
  by (simp add: join_path_def)

text \<open>
  Claim C4. With \<^verbatim>\<open>+mpi\<close> in the spec and cmake located (lines 188 to 195 passed), the
  generator finishes, and its writes that are cache entries named \<^verbatim>\<open>MPIEXEC\<close> or
  \<^verbatim>\<open>MPIEXEC_EXECUTABLE\<close> are: when \<^verbatim>\<open>mpiexec\<close> is a file under the MPI prefix's \<^verbatim>\<open>bin\<close>,
  that one path, under \<^verbatim>\<open>MPIEXEC_EXECUTABLE\<close> if the cmake of the spec satisfies
  \<^verbatim>\<open>@3.10:\<close> and under \<^verbatim>\<open>MPIEXEC\<close> if not; when it is no file, none, whatever the cmake
  version.
\<close>

theorem mpiexec_entry_key:
  assumes "variant_mpi sp" and "find_cmake env sp = Inr exe"
  shows "\<exists>r. create_host_config env sp = Inr r \<and>
           filter is_mpiexec_entry (written r) =
             (if isfile env (join_path (mpi_prefix_bin sp) ''mpiexec'')
              then [cmake_cache_entry
                      (if cmake_satisfies_3_10 sp then ''MPIEXEC_EXECUTABLE'' else ''MPIEXEC'')
                      (join_path (mpi_prefix_bin sp) ''mpiexec'') None]
              else [])"
  using assms
  by (simp add: create_host_config_def Let_def filter_mpiexec_host_config_writes)

theorem mpiexec_entry_key_witness:
  "variant_mpi spec0 \<and> find_cmake env0 spec0 = Inr ''/usr/bin/cmake''
   \<and> filter is_mpiexec_entry (host_config_writes env0 spec0 ''/usr/bin/cmake'')
       = [cmake_cache_entry ''MPIEXEC_EXECUTABLE'' ''/opt/mpi/bin/mpiexec'' None]"
  using mpiexec_entry_key [OF mpi0(1) find_cmake0]
  by (auto simp: mpi0 find_cmake0 create_host_config_def Let_def)

section \<open>File names\<close>

text \<open>
  Claim C5, as amended. The CMake generator opens the file
  \<^verbatim>\<open>{host}-{platformId}-{compilerId}-ascent.cmake\<close> and the Makefile generator the file
  \<^verbatim>\<open>make-{host}-{platformId}-{compilerId}-ascent.inc\<close>, where the host is the host name, the
  platform identifier is \<^verbatim>\<open>SYS_TYPE\<close> of the environment when set and the architecture of
  the spec otherwise, and the compiler identity is the compiler of the spec.
\<close>

theorem output_file_names:
  "(create_host_config env sp = Inr r \<longrightarrow>
      opened r
        = gethostname env @ ''-'' @ sys_type env sp @ ''-'' @ compiler sp @ ''-ascent.cmake'')
   \<and> file_name (makefile_inc env sp)
       = ''make-'' @ gethostname env @ ''-'' @ sys_type env sp @ ''-'' @ compiler sp
           @ ''-ascent.inc''"
  by (auto simp: create_host_config_def makefile_inc_def file_name_def Let_def
      split: sum.splits)

theorem output_file_names_witness:
  "map_sum id opened (create_host_config env0 spec0)
     = Inr ''node1-linux-x86_64-gcc@8.3.1-ascent.cmake''
   \<and> file_name (makefile_inc env0 spec0) = ''make-node1-linux-x86_64-gcc@8.3.1-ascent.inc''"
proof -
  obtain r where run: "create_host_config env0 spec0 = Inr r"
    using find_cmake0 by (rule create_host_config_runs)
  from output_file_names [of env0 spec0 r] run show ?thesis
    by (simp add: names0)
qed

text \<open>
  The endings \<^verbatim>\<open>-host-config.cmake\<close> and \<^verbatim>\<open>-include.inc\<close> of the specification are not
  those of the code: for the host \<^verbatim>\<open>node1\<close>, the platform \<^verbatim>\<open>linux-x86_64\<close> and the
  compiler \<^verbatim>\<open>gcc@8.3.1\<close> neither file has the name built with them.
\<close>

theorem output_file_names_counterexample:
  "map_sum id opened (create_host_config env0 spec0)
     \<noteq> Inr (gethostname env0 @ ''-'' @ sys_type env0 spec0 @ ''-'' @ compiler spec0
             @ ''-host-config.cmake'')
   \<and> file_name (makefile_inc env0 spec0)
     \<noteq> ''make-'' @ gethostname env0 @ ''-'' @ sys_type env0 spec0 @ ''-'' @ compiler spec0
         @ ''-include.inc''"
  by (simp add: create_host_config_def makefile_inc_def file_name_def find_cmake0 Let_def
      names0 mpi0 cuda0)

section \<open>Names of the cache entries of one run\<close>

text \<open>
  Claim C6. The specification wants no name written twice in one run, and \<^verbatim>\<open>UMPIRE_DIR\<close>
  once. Lines 248 and 249 are the same statement twice: in the run below the names of the
  cache entries written, in order, hold \<^verbatim>\<open>UMPIRE_DIR\<close> two times, so they are not
  distinct.
\<close>

theorem umpire_dir_written_twice:
  "map_sum id (cache_names \<circ> written) (create_host_config env0 spec0) =
     Inr [''CMAKE_C_COMPILER'', ''CMAKE_CXX_COMPILER'', ''BUILD_SHARED_LIBS'', ''ENABLE_TESTS'',
          ''LAPACK_DIR'', ''BLAS_DIR'', ''UMPIRE_DIR'', ''UMPIRE_DIR'',
          ''ENABLE_MPI'', ''MPI_C_COMPILER'', ''MPI_CXX_COMPILER'', ''MPI_Fortran_COMPILER'',
          ''MPIEXEC_EXECUTABLE'', ''ENABLE_CUDA'', ''ENABLE_OPENMP'']
   \<and> map_sum id (distinct \<circ> cache_names \<circ> written) (create_host_config env0 spec0)
     = Inr False"
  by (simp add: create_host_config_def find_cmake0 Let_def cache_names_host_config_writes
      cache_names_mpi_writes mpi0)

section \<open>Locating cmake\<close>

text \<open>
  Claim C7. The generator raises the error of line 194 (a \<^verbatim>\<open>RuntimeError\<close>, the
  tool-not-found error of the specification) exactly when \<^verbatim>\<open>+cmake\<close> is not in the spec
  and \<^verbatim>\<open>which("cmake")\<close> finds nothing; it finishes with a file exactly when \<^verbatim>\<open>+cmake\<close>
  is in the spec or the lookup finds a cmake.
\<close>

theorem cmake_not_found:
  "(create_host_config env sp
      = Inl (RuntimeError ''failed to find CMake (and cmake variant is off)''))
     = (\<not> variant_cmake sp \<and> which_exe env ''cmake'' = None)
   \<and> (\<exists>r. create_host_config env sp = Inr r)
     = (variant_cmake sp \<or> which_exe env ''cmake'' \<noteq> None)"
  by (auto simp: create_host_config_def find_cmake_def Let_def split: option.splits)

theorem cmake_not_found_witness:
  "create_host_config env_no_cmake spec0
     = Inl (RuntimeError ''failed to find CMake (and cmake variant is off)'')
   \<and> create_host_config env0 spec0
     \<noteq> Inl (RuntimeError ''failed to find CMake (and cmake variant is off)'')"
  using cmake_not_found [of env_no_cmake spec0] cmake_not_found [of env0 spec0]
  by (simp add: env_no_cmake_def env0_def spec0_def)

section \<open>The flags of the Makefile include\<close>







section \<open>Two runs on the same request\<close>

lemma filter_list_update_dropped:
  "i < length xs \<Longrightarrow> \<not> P (xs ! i) \<Longrightarrow> \<not> P y \<Longrightarrow> filter P (xs[i := y]) = filter P xs"
proof (induction xs arbitrary: i)
  case Nil
  then show ?case by simp
next
  case (Cons x xs)
  then show ?case by (cases i) auto
qed

lemma cmake_comment_dropped: "\<not> outside_cmake_comment (''# cmake executable path: '' @ s)"
  by (simp add: outside_cmake_comment_def)

lemma host_config_writes_nth_6:
  "6 < length (host_config_writes env sp exe)"
  "host_config_writes env sp exe ! 6 = ''# cmake executable path: '' @ exe @ nl @ nl"
  by (simp_all add: host_config_writes_def)

lemma host_config_writes_update:
  "host_config_writes env sp exe
     = (host_config_writes env sp exe')[6 := host_config_writes env sp exe ! 6]"
  by (simp add: host_config_writes_def)

lemma filter_outside_cmake_comment:
  "filter outside_cmake_comment (host_config_writes env sp exe)
     = filter outside_cmake_comment (host_config_writes env sp exe')"
  by (subst host_config_writes_update [of env sp exe exe'])
    (simp only: filter_list_update_dropped host_config_writes_nth_6 cmake_comment_dropped
      not_False_eq_True)

lemma sys_type_env_cong: "sys_type (env\<lparr>which_exe := f\<rparr>) sp = sys_type env sp"
  by (simp add: sys_type_def)

lemma sys_type_spec_cong: "sys_type env (sp\<lparr>cmake_command_path := p\<rparr>) = sys_type env sp"
  by (cases "SYS_TYPE env") (simp_all add: sys_type_def)

lemma host_config_writes_cong:
  "host_config_writes (env\<lparr>which_exe := f\<rparr>) (sp\<lparr>cmake_command_path := p\<rparr>) exe
     = host_config_writes env sp exe"
  by (simp add: host_config_writes_def mpi_writes_def sys_type_env_cong sys_type_spec_cong
      Let_def)

lemma makefile_inc_cong:
  "makefile_inc env (sp\<lparr>cmake_command_path := p\<rparr>) = makefile_inc env sp"
  by (simp add: makefile_inc_def makefile_inc_head_def makefile_inc_compilers_def
      makefile_inc_flags_def sys_type_spec_cong Let_def)

lemma find_cmake_other: "find_cmake env_other_cmake spec0 = Inr ''/opt/cmake/bin/cmake''"
  by (simp add: find_cmake_def env_other_cmake_def env0_def spec0_def)

text \<open>
  Claim C9. The generators are functions of what they read, so two runs that read the
  same values leave the same files. Two finished runs of the CMake generator that read the
  same values except for where cmake is (the answer of \<^verbatim>\<open>which\<close>, the command path of the
  cmake of the spec) open the same file, return and log the same path, and write the same
  strings except for write number 6, the comment with the path of cmake. The Makefile
  generator does not read the command path of cmake at all.
\<close>

theorem emitters_deterministic:
  assumes same_env: "env2 = env1\<lparr>which_exe := which_exe env2\<rparr>"
    and same_spec: "sp2 = sp1\<lparr>cmake_command_path := cmake_command_path sp2\<rparr>"
    and run1: "create_host_config env1 sp1 = Inr r1"
    and run2: "create_host_config env2 sp2 = Inr r2"
  shows "opened r2 = opened r1 \<and> returned r2 = returned r1 \<and> logged r2 = logged r1
    \<and> written r2 = (written r1)[6 := written r2 ! 6]
    \<and> filter outside_cmake_comment (written r2) = filter outside_cmake_comment (written r1)
    \<and> makefile_inc env1 sp2 = makefile_inc env1 sp1"
proof -
  from run1 obtain exe1 where w1: "written r1 = host_config_writes env1 sp1 exe1"
    by (rule written_host_config)
  from run2 obtain exe2 where w2: "written r2 = host_config_writes env2 sp2 exe2"
    by (rule written_host_config)
  have same_writes: "host_config_writes env2 sp2 exe2 = host_config_writes env1 sp1 exe2"
    by (subst same_env, subst same_spec) (rule host_config_writes_cong)
  from w1 w2 have files: "filter outside_cmake_comment (written r2)
      = filter outside_cmake_comment (written r1)"
    by (simp add: same_writes filter_outside_cmake_comment [of env1 sp1 exe2 exe1])
  from w2 have w2': "written r2 = host_config_writes env1 sp1 exe2"
    by (simp only: same_writes)
  have only_6: "written r2 = (written r1)[6 := written r2 ! 6]"
    unfolding w1 w2' by (rule host_config_writes_update)
  have host: "gethostname env2 = gethostname env1"
    by (subst same_env) simp
  have platform: "sys_type env2 sp2 = sys_type env1 sp1"
    by (subst same_env, subst same_spec) (simp add: sys_type_env_cong sys_type_spec_cong)
  have comp: "compiler sp2 = compiler sp1"
    by (subst same_spec) simp
  have cwd: "abspath env2 = abspath env1"
    by (subst same_env) simp
  from run1 run2 have names: "opened r2 = opened r1" "returned r2 = returned r1"
    "logged r2 = logged r1"
    by (auto simp: create_host_config_def Let_def host platform comp cwd split: sum.splits)
  have "makefile_inc env1 sp2 = makefile_inc env1 sp1"
    by (subst same_spec) (rule makefile_inc_cong)
  with files only_6 names show ?thesis by simp
qed

theorem emitters_deterministic_witness:
  "filter outside_cmake_comment
     (host_config_writes env_other_cmake spec0 ''/opt/cmake/bin/cmake'')
     = filter outside_cmake_comment (host_config_writes env0 spec0 ''/usr/bin/cmake'')"
proof -
  obtain r1 where run1: "create_host_config env0 spec0 = Inr r1"
    and w1: "written r1 = host_config_writes env0 spec0 ''/usr/bin/cmake''"
    using find_cmake0 by (rule create_host_config_runs)
  obtain r2 where run2: "create_host_config env_other_cmake spec0 = Inr r2"
    and w2: "written r2 = host_config_writes env_other_cmake spec0 ''/opt/cmake/bin/cmake''"
    using find_cmake_other by (rule create_host_config_runs)
  have same_env: "env_other_cmake = env0\<lparr>which_exe := which_exe env_other_cmake\<rparr>"
    by (simp add: env_other_cmake_def)
  have same_spec: "spec0 = spec0\<lparr>cmake_command_path := cmake_command_path spec0\<rparr>"
    by simp
  from emitters_deterministic [OF same_env same_spec run1 run2] show ?thesis
    by (simp add: w1 w2)
qed

section \<open>The Fortran compiler of the Makefile include\<close>

text \<open>
  Claim C10, as amended. When \<^verbatim>\<open>+mpi\<close> is in the spec and no Fortran compiler is detected
  (\<^verbatim>\<open>self.compiler.fc\<close> is \<^verbatim>\<open>None\<close> or empty, or \<^verbatim>\<open>which\<close> finds nothing for \<^verbatim>\<open>SPACK_FC\<close>),
  the Makefile generator writes one assignment to \<^verbatim>\<open>FC\<close>, and it is the line
  \<^verbatim>\<open>FC = None \<close> (with the space that \<^verbatim>\<open>make_entry\<close> puts before the newline): the line is
  not left out, and with \<^verbatim>\<open>+cuda\<close> in the spec too the run finishes without an error.
\<close>

theorem fc_none_written:
  assumes "compiler_fc env = None \<or> compiler_fc env = Some []
           \<or> which_exe env (SPACK_FC env) = None"
    and "variant_mpi sp"
  shows "filter (assigns ''FC'') (file_writes (makefile_inc env sp)) = [''FC = None '' @ nl]
    \<and> (variant_cuda sp \<longrightarrow> \<not> isl (makefile_inc env sp))"
proof -
  from assms(1) have none: "f_compiler env = PyNone"
    by (auto simp: f_compiler_def split: option.splits)
  have head: "filter (assigns ''FC'') (makefile_inc_head env sp) = []"
    by (simp add: makefile_inc_head_def assigns_def make_entry_def)
  have compilers: "filter (assigns ''FC'') (makefile_inc_compilers env sp) = [''FC = None '' @ nl]"
    by (simp add: makefile_inc_compilers_def none assigns_def make_entry_def make_inc_entry_def)
  have flags: "filter (assigns ''FC'') (makefile_inc_flags env sp) = []"
    by (simp add: makefile_inc_flags_def assigns_def make_inc_entry_def make_lib_entry_def)
  from assms(2) show ?thesis
    by (simp add: makefile_inc_def file_writes_def Let_def head compilers flags)
qed

theorem fc_none_written_witness:
  "compiler_fc env0 = None \<and> variant_mpi spec0
   \<and> filter (assigns ''FC'') (file_writes (makefile_inc env0 spec0)) = [''FC = None '' @ nl]
   \<and> \<not> isl (makefile_inc env0 spec0)"
proof -
  have none: "compiler_fc env0 = None"
    by (simp add: env0_def)
  then have undetected: "compiler_fc env0 = None \<or> compiler_fc env0 = Some []
      \<or> which_exe env0 (SPACK_FC env0) = None"
    by simp
  from fc_none_written [OF undetected mpi0(1)] none show ?thesis
    by (simp add: mpi0 cuda0)
qed

text \<open>
  Without \<^verbatim>\<open>+mpi\<close> the statement fails: in the request below no Fortran compiler is
  detected, the run stops with the \<^verbatim>\<open>KeyError\<close> of line 359, and the file left behind has
  no assignment to \<^verbatim>\<open>FC\<close>.
\<close>

theorem fc_none_written_counterexample:
  "f_compiler env0 = PyNone
   \<and> map_sum raised id (makefile_inc env0 spec_no_mpi) = Inl (KeyError ''mpi'')
   \<and> filter (assigns ''FC'') (file_writes (makefile_inc env0 spec_no_mpi)) = []"
proof -
  have off: "\<not> variant_mpi spec_no_mpi"
    by (simp add: spec_no_mpi_def)
  have none: "f_compiler env0 = PyNone"
    by (simp add: f_compiler_def env0_def)
  have head: "filter (assigns ''FC'') (makefile_inc_head env0 spec_no_mpi) = []"
    by (simp add: makefile_inc_head_def assigns_def make_entry_def)
  from off none head show ?thesis
    by (simp add: makefile_inc_def file_writes_def Let_def)
qed

end
